theory Spec2Isabelle
  imports Main
begin

section \<open>Values crossing the program's boundaries\<close>

text \<open>
  The program is one TypeScript module, \<^verbatim>\<open>src/index.ts\<close>: the generic \<^verbatim>\<open>request\<close>
  function, five verb wrappers, three error factories, five logging handlers and the
  dispatch \<^verbatim>\<open>handleErrors\<close>. Its collaborators (the platform's \<^verbatim>\<open>fetch\<close>, the
  \<^verbatim>\<open>Response\<close> object, \<^verbatim>\<open>JSON.stringify\<close>, the zod schemas the
  caller supplies) are parameters of the model.
\<close>

text \<open>JavaScript values as far as the program handles them: decoded JSON.\<close>

datatype js_value =
    JNull
  | JBool bool
  | JNum int
  | JStr string
  | JArr "js_value list"
  | JObj "(string \<times> js_value) list"

text \<open>
  An \<^verbatim>\<open>Error\<close> object: the three properties the program reads. \<^verbatim>\<open>new Error(message)\<close>
  leaves \<^verbatim>\<open>cause\<close> undefined, which is \<open>None\<close> here.
\<close>

record js_error =
  name :: string
  message :: string
  cause :: "js_value option"

text \<open>
  JavaScript can throw any value. \<^verbatim>\<open>error instanceof Error\<close> (line 42) tells the two
  constructors apart.
\<close>

datatype thrown = ErrorObj js_error | NonError js_value

text \<open>
  What awaiting a promise gives: its value, the value it was rejected with, or nothing at
  all when it never settles (\<open>Pending\<close>).
\<close>

datatype 'a outcome = Fulfilled 'a | Rejected thrown | Pending

datatype HTTPMethods = GET | POST | PUT | PATCH | DELETE

text \<open>
  The signal bound to a network call: the one of the \<^verbatim>\<open>AbortController\<close> that
  \<^verbatim>\<open>request\<close> creates (line 27), or one the caller put into the configuration.
\<close>

datatype abort_signal = RequestSignal | CallerSignal nat

text \<open>
  \<^verbatim>\<open>RequestInit\<close>: every property is optional. The property \<^verbatim>\<open>method\<close> is the
  field \<open>method'\<close>.
\<close>

record request_init =
  method' :: "HTTPMethods option"
  cache :: "string option"
  headers :: "(string \<times> string) list"
  body :: "string option"
  signal :: "abort_signal option"

text \<open>
  \<^verbatim>\<open>Response\<close>: the four members the program uses. \<open>json\<close> is what awaiting
  \<^verbatim>\<open>response.json()\<close> gives.
\<close>

record response =
  ok :: bool
  status :: nat
  statusText :: string
  json :: "js_value outcome"

text \<open>
  The Fetch standard defines \<^verbatim>\<open>Response.ok\<close> from the status: it is true exactly for the
  statuses 200 to 299. Every response the platform hands out satisfies this.
\<close>

definition fetch_response :: "response \<Rightarrow> bool" where
  "fetch_response r \<longleftrightarrow> (ok r \<longleftrightarrow> 200 \<le> status r \<and> status r \<le> 299)"

text \<open>
  A zod schema, as the program uses it: \<^verbatim>\<open>parse\<close> returns the validated value or throws.
\<close>

type_synonym schema = "js_value \<Rightarrow> thrown + js_value"

text \<open>The platform: \<^verbatim>\<open>fetch\<close> and \<^verbatim>\<open>JSON.stringify\<close>.\<close>

record platform =
  fetch :: "string \<Rightarrow> request_init \<Rightarrow> response outcome"
  JSON_stringify :: "js_value \<Rightarrow> string"

text \<open>
  The observable effects, in the order they happen: creating the controller, the network
  call with the configuration it is issued with, decoding the body, running a schema, a
  line on \<^verbatim>\<open>console.error\<close> (its three arguments), aborting the controller.
\<close>

datatype event =
    NewAbortController
  | FetchCall string request_init
  | ResponseJson
  | SchemaParse js_value
  | ConsoleError string string "js_value option"
  | AbortCall

section \<open>Template literals\<close>

text \<open>
  \<^verbatim>\<open>`${response.status}`\<close>: a status is a non-negative integer, printed in decimal
  without leading zeros.
\<close>

definition digit_char :: "nat \<Rightarrow> char" where
  "digit_char d = ''0123456789'' ! d"

fun string_of_nat :: "nat \<Rightarrow> string" where
  "string_of_nat n =
     (if n < 10 then [digit_char n] else string_of_nat (n div 10) @ [digit_char (n mod 10)])"

declare string_of_nat.simps [simp del]

section \<open>Error factories and handlers (lines 185 to 226)\<close>

definition createNetworkError :: "string \<Rightarrow> js_error" where
  "createNetworkError msg = \<lparr>name = ''NetworkError'', message = msg, cause = None\<rparr>"

definition createClientError :: "string \<Rightarrow> js_error" where
  "createClientError msg = \<lparr>name = ''ClientError'', message = msg, cause = None\<rparr>"

definition createServerError :: "string \<Rightarrow> js_error" where
  "createServerError msg = \<lparr>name = ''ServerError'', message = msg, cause = None\<rparr>"

definition handleNetworkError :: "js_error \<Rightarrow> event list" where
  "handleNetworkError error = [ConsoleError ''Network error occurred:'' (message error) (cause error)]"

definition handleClientError :: "js_error \<Rightarrow> event list" where
  "handleClientError error = [ConsoleError ''Client error occurred:'' (message error) (cause error)]"

definition handleServerError :: "js_error \<Rightarrow> event list" where
  "handleServerError error = [ConsoleError ''Server error occurred:'' (message error) (cause error)]"

definition handleAbortError :: "js_error \<Rightarrow> event list" where
  "handleAbortError error = [ConsoleError ''Request was aborted:'' (message error) (cause error)]"

definition handleUnexpectedError :: "js_error \<Rightarrow> event list" where
  "handleUnexpectedError error =
     [ConsoleError ''An unexpected error occurred:'' (message error) (cause error)]"

section \<open>The dispatch (lines 228 to 238)\<close>

text \<open>The object literal \<^verbatim>\<open>errorHandlers\<close>: its four own properties.\<close>

definition errorHandlers :: "(string \<times> (js_error \<Rightarrow> event list)) list" where
  "errorHandlers =
     [(''AbortError'', handleAbortError),
      (''NetworkError'', handleNetworkError),
      (''ClientError'', handleClientError),
      (''ServerError'', handleServerError)]"

text \<open>
  \<^verbatim>\<open>errorHandlers[error.name]\<close> is a property read on an ordinary object, so a key that
  is not an own property is looked up in \<^verbatim>\<open>Object.prototype\<close>. Each property found there
  is truthy, so it is what \<^verbatim>\<open>errorHandler(error)\<close> then calls, with \<^verbatim>\<open>this\<close>
  undefined: \<^verbatim>\<open>constructor\<close> (that is \<^verbatim>\<open>Object\<close>) and \<^verbatim>\<open>toString\<close> return, the
  accessor \<^verbatim>\<open>__proto__\<close> yields an object that is not callable, and the other methods
  convert \<^verbatim>\<open>this\<close> to an object first and throw a \<^verbatim>\<open>TypeError\<close>. The message
  texts of these errors are V8's; the program never reads them.
\<close>

datatype inherited_property = Returns | Throws | NotCallable

definition Object_prototype :: "(string \<times> inherited_property) list" where
  "Object_prototype =
     [(''constructor'', Returns),
      (''toString'', Returns),
      (''__proto__'', NotCallable),
      (''hasOwnProperty'', Throws),
      (''isPrototypeOf'', Throws),
      (''propertyIsEnumerable'', Throws),
      (''toLocaleString'', Throws),
      (''valueOf'', Throws),
      (''__defineGetter__'', Throws),
      (''__defineSetter__'', Throws),
      (''__lookupGetter__'', Throws),
      (''__lookupSetter__'', Throws)]"

definition TypeError :: "string \<Rightarrow> js_error" where
  "TypeError msg = \<lparr>name = ''TypeError'', message = msg, cause = None\<rparr>"

text \<open>
  \<open>handleErrors\<close> returns what it throws, if anything, and the lines it logged.
\<close>

definition handleErrors :: "js_error \<Rightarrow> thrown option \<times> event list" where
  "handleErrors error =
     (case map_of errorHandlers (name error) of
        Some errorHandler \<Rightarrow> (None, errorHandler error)
      | None \<Rightarrow>
          (case map_of Object_prototype (name error) of
             None \<Rightarrow> (None, handleUnexpectedError error)
           | Some Returns \<Rightarrow> (None, [])
           | Some Throws \<Rightarrow>
               (Some (ErrorObj (TypeError ''Cannot convert undefined or null to object'')), [])
           | Some NotCallable \<Rightarrow>
               (Some (ErrorObj (TypeError ''errorHandler is not a function'')), [])))"

section \<open>request (lines 22 to 49)\<close>

text \<open>Lines 33 to 39: what the status classification throws, if anything.\<close>

definition status_check :: "response \<Rightarrow> thrown option" where
  "status_check r =
     (if \<not> ok r then
        if status r \<ge> 400 \<and> status r < 500 then
          Some (ErrorObj (createClientError (string_of_nat (status r) @ '': '' @ statusText r)))
        else if status r \<ge> 500 then
          Some (ErrorObj (createServerError (string_of_nat (status r) @ '': '' @ statusText r)))
        else None
      else None)"

text \<open>Line 40: \<^verbatim>\<open>responseSchema.parse(await response.json())\<close>.\<close>

definition decode_and_parse :: "response \<Rightarrow> schema \<Rightarrow> js_value outcome \<times> event list" where
  "decode_and_parse r responseSchema =
     (case json r of
        Pending \<Rightarrow> (Pending, [ResponseJson])
      | Rejected t \<Rightarrow> (Rejected t, [ResponseJson])
      | Fulfilled j \<Rightarrow>
          (case responseSchema j of
             Inl t \<Rightarrow> (Rejected t, [ResponseJson, SchemaParse j])
           | Inr v \<Rightarrow> (Fulfilled v, [ResponseJson, SchemaParse j])))"

text \<open>
  The \<^verbatim>\<open>try\<close> block, lines 31 to 40. \<^verbatim>\<open>{ ...config, signal }\<close> overrides any signal
  of the caller's configuration.
\<close>

definition request_try ::
  "platform \<Rightarrow> string \<Rightarrow> request_init \<Rightarrow> schema \<Rightarrow> js_value outcome \<times> event list" where
  "request_try p url config responseSchema =
     (let init = config\<lparr>signal := Some RequestSignal\<rparr> in
      case fetch p url init of
        Pending \<Rightarrow> (Pending, [FetchCall url init])
      | Rejected t \<Rightarrow> (Rejected t, [FetchCall url init])
      | Fulfilled r \<Rightarrow>
          (case status_check r of
             Some t \<Rightarrow> (Rejected t, [FetchCall url init])
           | None \<Rightarrow>
               (let (out, evs) = decode_and_parse r responseSchema
                in (out, FetchCall url init # evs))))"

text \<open>
  The \<^verbatim>\<open>catch\<close> block, lines 41 to 45: the value the block throws and what it logged.
  When \<open>handleErrors\<close> itself throws, that value leaves the block instead of \<open>error\<close>.
\<close>

definition request_catch :: "thrown \<Rightarrow> thrown \<times> event list" where
  "request_catch error =
     (case error of
        ErrorObj e \<Rightarrow>
          (case handleErrors e of
             (Some t, evs) \<Rightarrow> (t, evs)
           | (None, evs) \<Rightarrow> (error, evs))
      | NonError v \<Rightarrow> (error, []))"

text \<open>
  The whole function. The \<^verbatim>\<open>finally\<close> block (lines 46 to 48) runs when the \<^verbatim>\<open>try\<close> or
  \<^verbatim>\<open>catch\<close> block is left; a call that waits forever never leaves them.
\<close>

definition request ::
  "platform \<Rightarrow> string \<Rightarrow> request_init \<Rightarrow> schema \<Rightarrow> js_value outcome \<times> event list" where
  "request p url config responseSchema =
     (case request_try p url config responseSchema of
        (Pending, evs) \<Rightarrow> (Pending, NewAbortController # evs)
      | (Fulfilled v, evs) \<Rightarrow> (Fulfilled v, NewAbortController # evs @ [AbortCall])
      | (Rejected error, evs) \<Rightarrow>
          (let (t, logged) = request_catch error
           in (Rejected t, NewAbortController # evs @ logged @ [AbortCall])))"

section \<open>The verb wrappers (lines 57 to 183)\<close>

text \<open>
  The source's \<^verbatim>\<open>_get\<close>, \<^verbatim>\<open>_post\<close>, \<^verbatim>\<open>_put\<close>, \<^verbatim>\<open>_patch\<close> and \<^verbatim>\<open>_delete\<close>
  are \<open>u_get\<close>, \<open>u_post\<close>, \<open>u_put\<close>, \<open>u_patch\<close> and \<open>u_delete\<close> here: a name
  cannot start with an underscore.
\<close>

definition HTTPHeadersContentType_application_json :: "(string \<times> string) list" where
  "HTTPHeadersContentType_application_json = [(''Content-Type'', ''application/json'')]"


text \<open>
  In the four wrappers below \<^verbatim>\<open>querySchema.parse(query)\<close> is evaluated while the
  argument list of \<^verbatim>\<open>request\<close> is built. When it throws, the wrapper (an
  \<^verbatim>\<open>async\<close> function) rejects with the thrown value and \<^verbatim>\<open>request\<close> is not called.
\<close>

definition u_post ::
  "platform \<Rightarrow> string \<Rightarrow> schema \<Rightarrow> js_value \<Rightarrow> schema \<Rightarrow> js_value outcome \<times> event list" where
  "u_post p url querySchema query responseSchema =
     (case querySchema query of
        Inl t \<Rightarrow> (Rejected t, [SchemaParse query])
      | Inr q \<Rightarrow>
          (let (out, evs) =
                 request p url
                   \<lparr>method' = Some POST, cache = None,
                    headers = HTTPHeadersContentType_application_json,
                    body = Some (JSON_stringify p q), signal = None\<rparr>
                   responseSchema
           in (out, SchemaParse query # evs)))"

definition u_put ::
  "platform \<Rightarrow> string \<Rightarrow> schema \<Rightarrow> js_value \<Rightarrow> schema \<Rightarrow> js_value outcome \<times> event list" where
  "u_put p url querySchema query responseSchema =
     (case querySchema query of
        Inl t \<Rightarrow> (Rejected t, [SchemaParse query])
      | Inr q \<Rightarrow>
          (let (out, evs) =
                 request p url
                   \<lparr>method' = Some PUT, cache = None,
                    headers = HTTPHeadersContentType_application_json,
                    body = Some (JSON_stringify p q), signal = None\<rparr>
                   responseSchema
           in (out, SchemaParse query # evs)))"

definition u_patch ::
  "platform \<Rightarrow> string \<Rightarrow> schema \<Rightarrow> js_value \<Rightarrow> schema \<Rightarrow> js_value outcome \<times> event list" where
  "u_patch p url querySchema query responseSchema =
     (case querySchema query of
        Inl t \<Rightarrow> (Rejected t, [SchemaParse query])
      | Inr q \<Rightarrow>
          (let (out, evs) =
                 request p url
                   \<lparr>method' = Some PATCH, cache = None,
                    headers = HTTPHeadersContentType_application_json,
                    body = Some (JSON_stringify p q), signal = None\<rparr>
                   responseSchema
           in (out, SchemaParse query # evs)))"

definition u_delete ::
  "platform \<Rightarrow> string \<Rightarrow> schema \<Rightarrow> js_value \<Rightarrow> schema \<Rightarrow> js_value outcome \<times> event list" where
  "u_delete p url querySchema query responseSchema =
     (case querySchema query of
        Inl t \<Rightarrow> (Rejected t, [SchemaParse query])
      | Inr q \<Rightarrow>
          (let (out, evs) =
                 request p url
                   \<lparr>method' = Some DELETE, cache = None,
                    headers = HTTPHeadersContentType_application_json,
                    body = Some (JSON_stringify p q), signal = None\<rparr>
                   responseSchema
           in (out, SchemaParse query # evs)))"


section \<open>Example collaborators\<close>

text \<open>
  Concrete values for the parameters, used where a statement is evaluated: a transport
  that answers every call the same way, a ready-made response, and three schemas.
\<close>

definition stub_platform :: "response outcome \<Rightarrow> platform" where
  "stub_platform answer = \<lparr>fetch = (\<lambda>url init. answer), JSON_stringify = (\<lambda>v. ''{}'')\<rparr>"

definition stub_response :: "nat \<Rightarrow> string \<Rightarrow> js_value \<Rightarrow> response" where
  "stub_response code text payload =
     \<lparr>ok = (200 \<le> code \<and> code \<le> 299), status = code, statusText = text,
      json = Fulfilled payload\<rparr>"

definition get_config :: request_init where
  "get_config = \<lparr>method' = Some GET, cache = None, headers = [], body = None, signal = None\<rparr>"

definition ZodError :: "string \<Rightarrow> js_error" where
  "ZodError msg = \<lparr>name = ''ZodError'', message = msg, cause = None\<rparr>"

text \<open>
  \<^verbatim>\<open>z.object({ id: z.number(), name: z.string() })\<close>: zod checks the two keys and
  returns an object holding only them (unknown keys are stripped); on a mismatch it throws a
  \<^verbatim>\<open>ZodError\<close>.
\<close>

definition UserSchema :: schema where
  "UserSchema v =
     (case v of
        JObj props \<Rightarrow>
          (case (map_of props ''id'', map_of props ''name'') of
             (Some (JNum i), Some (JStr s)) \<Rightarrow> Inr (JObj [(''id'', JNum i), (''name'', JStr s)])
           | _ \<Rightarrow> Inl (ErrorObj (ZodError ''Invalid input'')))
      | _ \<Rightarrow> Inl (ErrorObj (ZodError ''Invalid input'')))"


text \<open>
  \<^verbatim>\<open>z.any().transform(() => { throw "boom" })\<close>: zod does not catch what a transform
  throws, and here that is a string, not an \<^verbatim>\<open>Error\<close>.
\<close>

definition ThrowingSchema :: schema where
  "ThrowingSchema v = Inl (NonError (JStr ''boom''))"

definition user_ana :: js_value where
  "user_ana = JObj [(''id'', JNum 1), (''name'', JStr ''Ana'')]"

definition user_ana_extra :: js_value where
  "user_ana_extra = JObj [(''id'', JNum 1), (''name'', JStr ''Ana''), (''admin'', JBool True)]"

section \<open>Facts about the dispatch\<close>

lemmas request_defs = request_def request_try_def request_catch_def decode_and_parse_def
  status_check_def

lemmas handler_defs = handleErrors_def errorHandlers_def Object_prototype_def
  handleAbortError_def handleNetworkError_def handleClientError_def handleServerError_def
  handleUnexpectedError_def

lemma handleErrors_unmapped:
  assumes "name e \<notin> set (map fst errorHandlers)"
    and "name e \<notin> set (map fst Object_prototype)"
  shows "handleErrors e = (None, handleUnexpectedError e)"
  using assms by (simp add: handleErrors_def errorHandlers_def Object_prototype_def)

lemma handleErrors_no_throw:
  assumes "name e \<notin> set (map fst Object_prototype)"
  shows "fst (handleErrors e) = None" and "length (snd (handleErrors e)) = 1"
  using assms by (simp_all add: handler_defs)

lemma handleErrors_events:
  "NewAbortController \<notin> set (snd (handleErrors e))" "AbortCall \<notin> set (snd (handleErrors e))"
  by (simp_all add: handler_defs split: option.splits inherited_property.splits)

text \<open>
  A name that \<^verbatim>\<open>Object.prototype\<close> knows does not reach \<open>handleUnexpectedError\<close>: for
  \<^verbatim>\<open>__proto__\<close> the dispatch throws, and \<open>request\<close> then rejects with that
  \<^verbatim>\<open>TypeError\<close> in place of the error it caught.
\<close>

lemma handleErrors_inherited_name:
  "handleErrors \<lparr>name = ''__proto__'', message = msg, cause = None\<rparr> =
     (Some (ErrorObj (TypeError ''errorHandler is not a function'')), [])"
  by (simp add: handleErrors_def errorHandlers_def Object_prototype_def)

section \<open>Facts about the run of a request\<close>

lemma decode_and_parse_events:
  "NewAbortController \<notin> set (snd (decode_and_parse r s))"
  "AbortCall \<notin> set (snd (decode_and_parse r s))"
  by (simp_all add: decode_and_parse_def split: outcome.splits sum.splits)

lemma request_try_events:
  "NewAbortController \<notin> set (snd (request_try p url config s))"
  "AbortCall \<notin> set (snd (request_try p url config s))"
  using decode_and_parse_events
  by (auto simp: request_try_def Let_def split: outcome.splits option.splits prod.splits
      dest: sndI)

lemma request_catch_events:
  "NewAbortController \<notin> set (snd (request_catch t))"
  "AbortCall \<notin> set (snd (request_catch t))"
  using handleErrors_events
  by (auto simp: request_catch_def split: thrown.splits prod.splits option.splits dest: sndI)








section \<open>Status classification\<close>

text \<open>
  Claim C1. When the transport answers with a status from 400 to 499, \<open>request\<close> rejects
  with the error \<open>createClientError\<close> builds, named \<^verbatim>\<open>ClientError\<close>, whose message is the
  status in decimal, a colon, a space and the status text. The run consists of creating the
  controller, the network call, one line of \<open>handleClientError\<close> and the abort: the body
  is neither decoded (\<open>ResponseJson\<close>) nor validated (\<open>SchemaParse\<close>). The response is
  one of the platform's, whose \<^verbatim>\<open>ok\<close> flag follows its status.
\<close>

theorem request_client_error:
  assumes "fetch p url (config\<lparr>signal := Some RequestSignal\<rparr>) = Fulfilled r"
    and "fetch_response r" and "400 \<le> status r" and "status r < 500"
  shows "request p url config responseSchema =
     (Rejected (ErrorObj \<lparr>name = ''ClientError'',
         message = string_of_nat (status r) @ '': '' @ statusText r, cause = None\<rparr>),
      [NewAbortController,
       FetchCall url (config\<lparr>signal := Some RequestSignal\<rparr>),
       ConsoleError ''Client error occurred:''
         (string_of_nat (status r) @ '': '' @ statusText r) None,
       AbortCall])"
  using assms
  by (simp add: request_defs fetch_response_def handler_defs createClientError_def)

theorem request_client_error_witness:
  "request (stub_platform (Fulfilled (stub_response 404 ''Not Found'' JNull)))
      ''https://api.example.com/users/1'' get_config UserSchema =
     (Rejected (ErrorObj \<lparr>name = ''ClientError'', message = ''404: Not Found'', cause = None\<rparr>),
      [NewAbortController,
       FetchCall ''https://api.example.com/users/1''
         (get_config\<lparr>signal := Some RequestSignal\<rparr>),
       ConsoleError ''Client error occurred:'' ''404: Not Found'' None,
       AbortCall])"
  using request_client_error
    [of "stub_platform (Fulfilled (stub_response 404 ''Not Found'' JNull))"
      "''https://api.example.com/users/1''" get_config
      "stub_response 404 ''Not Found'' JNull" UserSchema]
  by (simp add: stub_platform_def stub_response_def fetch_response_def
      string_of_nat.simps digit_char_def)

text \<open>
  Claim C2. When the transport answers with a status of 500 or more, \<open>request\<close> rejects
  with the error \<open>createServerError\<close> builds, named \<^verbatim>\<open>ServerError\<close>, with the message
  built the same way; for status 500 and the text \<^verbatim>\<open>Internal Server Error\<close> that message
  is \<^verbatim>\<open>500: Internal Server Error\<close>.
\<close>

theorem request_server_error:
  assumes "fetch p url (config\<lparr>signal := Some RequestSignal\<rparr>) = Fulfilled r"
    and "fetch_response r" and "500 \<le> status r"
  shows "request p url config responseSchema =
     (Rejected (ErrorObj \<lparr>name = ''ServerError'',
         message = string_of_nat (status r) @ '': '' @ statusText r, cause = None\<rparr>),
      [NewAbortController,
       FetchCall url (config\<lparr>signal := Some RequestSignal\<rparr>),
       ConsoleError ''Server error occurred:''
         (string_of_nat (status r) @ '': '' @ statusText r) None,
       AbortCall])"
  using assms
  by (simp add: request_defs fetch_response_def handler_defs createServerError_def)

theorem request_server_error_witness:
  "request (stub_platform (Fulfilled (stub_response 500 ''Internal Server Error'' JNull)))
      ''https://api.example.com/users/1'' get_config UserSchema =
     (Rejected (ErrorObj \<lparr>name = ''ServerError'', message = ''500: Internal Server Error'',
         cause = None\<rparr>),
      [NewAbortController,
       FetchCall ''https://api.example.com/users/1''
         (get_config\<lparr>signal := Some RequestSignal\<rparr>),
       ConsoleError ''Server error occurred:'' ''500: Internal Server Error'' None,
       AbortCall])"
  using request_server_error
    [of "stub_platform (Fulfilled (stub_response 500 ''Internal Server Error'' JNull))"
      "''https://api.example.com/users/1''" get_config
      "stub_response 500 ''Internal Server Error'' JNull" UserSchema]
  by (simp add: stub_platform_def stub_response_def fetch_response_def
      string_of_nat.simps digit_char_def)

text \<open>
  Claim C7. A response whose \<^verbatim>\<open>ok\<close> flag is false and whose status is below 400 (status 0,
  a redirect that was not followed) makes the classification throw nothing, and
  \<open>request\<close> goes on as on the success path: it decodes the body, and when the body
  decodes it runs the response schema on the decoded value and resolves to what the schema
  returns; what the decoding or the schema throws goes through the \<^verbatim>\<open>catch\<close> block. The
  whole request equals the one for the same response with \<^verbatim>\<open>ok\<close> true.
\<close>

theorem request_not_ok_below_400:
  assumes "fetch p url (config\<lparr>signal := Some RequestSignal\<rparr>) = Fulfilled r"
    and "\<not> ok r" and "status r < 400"
  shows "status_check r = None
   \<and> request p url config responseSchema =
       (case json r of
          Pending \<Rightarrow>
            (Pending,
             [NewAbortController, FetchCall url (config\<lparr>signal := Some RequestSignal\<rparr>),
              ResponseJson])
        | Rejected t \<Rightarrow>
            (Rejected (fst (request_catch t)),
             [NewAbortController, FetchCall url (config\<lparr>signal := Some RequestSignal\<rparr>),
              ResponseJson] @ snd (request_catch t) @ [AbortCall])
        | Fulfilled j \<Rightarrow>
            (case responseSchema j of
               Inr v \<Rightarrow>
                 (Fulfilled v,
                  [NewAbortController,
                   FetchCall url (config\<lparr>signal := Some RequestSignal\<rparr>),
                   ResponseJson, SchemaParse j, AbortCall])
             | Inl t \<Rightarrow>
                 (Rejected (fst (request_catch t)),
                  [NewAbortController,
                   FetchCall url (config\<lparr>signal := Some RequestSignal\<rparr>),
                   ResponseJson, SchemaParse j] @ snd (request_catch t) @ [AbortCall])))
   \<and> request_try p url config responseSchema =
       (fst (decode_and_parse r responseSchema),
        FetchCall url (config\<lparr>signal := Some RequestSignal\<rparr>)
          # snd (decode_and_parse r responseSchema))
   \<and> request p url config responseSchema =
       request (p\<lparr>fetch := \<lambda>u i. Fulfilled (r\<lparr>ok := True\<rparr>)\<rparr>) url config responseSchema"
  using assms
  by (simp add: request_def request_try_def status_check_def decode_and_parse_def
      split: prod.splits outcome.splits sum.splits)

theorem request_not_ok_below_400_witness:
  "status_check
     \<lparr>ok = False, status = 304, statusText = ''Not Modified'',
      json = Fulfilled user_ana_extra\<rparr> = None
   \<and> request (stub_platform (Fulfilled
         \<lparr>ok = False, status = 304, statusText = ''Not Modified'',
          json = Fulfilled user_ana_extra\<rparr>))
       ''https://api.example.com/users/1'' get_config UserSchema =
     (Fulfilled user_ana,
      [NewAbortController,
       FetchCall ''https://api.example.com/users/1''
         (get_config\<lparr>signal := Some RequestSignal\<rparr>),
       ResponseJson, SchemaParse user_ana_extra, AbortCall])
   \<and> user_ana \<noteq> user_ana_extra
   \<and> status_check \<lparr>ok = False, status = 0, statusText = [], json = Fulfilled JNull\<rparr> = None
   \<and> request (stub_platform (Fulfilled
         \<lparr>ok = False, status = 0, statusText = [], json = Fulfilled JNull\<rparr>))
       ''https://api.example.com/users/1'' get_config UserSchema =
     (Rejected (ErrorObj (ZodError ''Invalid input'')),
      [NewAbortController,
       FetchCall ''https://api.example.com/users/1''
         (get_config\<lparr>signal := Some RequestSignal\<rparr>),
       ResponseJson, SchemaParse JNull,
       ConsoleError ''An unexpected error occurred:'' ''Invalid input'' None, AbortCall])"
  using request_not_ok_below_400
    [of "stub_platform (Fulfilled
         \<lparr>ok = False, status = 304, statusText = ''Not Modified'',
          json = Fulfilled user_ana_extra\<rparr>)"
      "''https://api.example.com/users/1''" get_config
      "\<lparr>ok = False, status = 304, statusText = ''Not Modified'',
        json = Fulfilled user_ana_extra\<rparr>"
      UserSchema]
    request_not_ok_below_400
    [of "stub_platform (Fulfilled
         \<lparr>ok = False, status = 0, statusText = [], json = Fulfilled JNull\<rparr>)"
      "''https://api.example.com/users/1''" get_config
      "\<lparr>ok = False, status = 0, statusText = [], json = Fulfilled JNull\<rparr>"
      UserSchema]
  by (simp add: request_catch_def handler_defs stub_platform_def UserSchema_def ZodError_def
      user_ana_def user_ana_extra_def)

section \<open>Decoding and validation\<close>

text \<open>
  Claim C3, as the code has it. When the transport answers with status 200, the body decodes
  to a JSON value and the response schema accepts it, \<open>request\<close> resolves to the value the
  schema returns for the decoded JSON, after exactly one decode and one validation.
\<close>

theorem request_resolves_to_parsed:
  assumes "fetch p url (config\<lparr>signal := Some RequestSignal\<rparr>) = Fulfilled r"
    and "status r = 200" and "json r = Fulfilled j" and "responseSchema j = Inr v"
  shows "request p url config responseSchema =
     (Fulfilled v,
      [NewAbortController, FetchCall url (config\<lparr>signal := Some RequestSignal\<rparr>),
       ResponseJson, SchemaParse j, AbortCall])"
  using assms by (simp add: request_defs)

theorem request_resolves_to_parsed_witness:
  "request (stub_platform (Fulfilled (stub_response 200 ''OK'' user_ana)))
      ''https://api.example.com/users/1'' get_config UserSchema =
     (Fulfilled (JObj [(''id'', JNum 1), (''name'', JStr ''Ana'')]),
      [NewAbortController,
       FetchCall ''https://api.example.com/users/1''
         (get_config\<lparr>signal := Some RequestSignal\<rparr>),
       ResponseJson, SchemaParse user_ana, AbortCall])"
  using request_resolves_to_parsed
    [of "stub_platform (Fulfilled (stub_response 200 ''OK'' user_ana))"
      "''https://api.example.com/users/1''" get_config "stub_response 200 ''OK'' user_ana"
      user_ana UserSchema "JObj [(''id'', JNum 1), (''name'', JStr ''Ana'')]"]
  by (simp add: stub_platform_def stub_response_def UserSchema_def user_ana_def)

text \<open>
  The resolved value is the schema's, not the decoded JSON: with status 200 and a body
  that carries a key the schema does not know, the schema accepts the decoded value and
  \<open>request\<close> resolves to an object without that key.
\<close>

theorem request_parsed_differs_from_decoded:
  "status (stub_response 200 ''OK'' user_ana_extra) = 200
   \<and> json (stub_response 200 ''OK'' user_ana_extra) = Fulfilled user_ana_extra
   \<and> UserSchema user_ana_extra = Inr user_ana
   \<and> fst (request (stub_platform (Fulfilled (stub_response 200 ''OK'' user_ana_extra)))
        ''https://api.example.com/users/1'' get_config UserSchema) = Fulfilled user_ana
   \<and> user_ana \<noteq> user_ana_extra"
  by (simp add: request_defs stub_platform_def stub_response_def get_config_def
      UserSchema_def user_ana_def user_ana_extra_def)

text \<open>
  Claim C4. When the transport answers with status 200 and the schema rejects the decoded
  body with its \<^verbatim>\<open>ZodError\<close>, \<open>request\<close> rejects with that very error: it is logged once,
  by \<open>handleUnexpectedError\<close>, and thrown on unchanged. The status classification threw
  nothing, so no \<^verbatim>\<open>ClientError\<close> or \<^verbatim>\<open>ServerError\<close> was built.
\<close>

theorem request_validation_failure:
  assumes "fetch p url (config\<lparr>signal := Some RequestSignal\<rparr>) = Fulfilled r"
    and "status r = 200" and "json r = Fulfilled j"
    and "responseSchema j = Inl (ErrorObj e)" and "name e = ''ZodError''"
  shows "request p url config responseSchema =
     (Rejected (ErrorObj e),
      [NewAbortController, FetchCall url (config\<lparr>signal := Some RequestSignal\<rparr>),
       ResponseJson, SchemaParse j,
       ConsoleError ''An unexpected error occurred:'' (message e) (cause e), AbortCall])
   \<and> status_check r = None"
  using assms by (simp add: request_defs handler_defs)

theorem request_validation_failure_witness:
  "request (stub_platform (Fulfilled (stub_response 200 ''OK'' (JStr ''oops''))))
      ''https://api.example.com/users/1'' get_config UserSchema =
     (Rejected (ErrorObj (ZodError ''Invalid input'')),
      [NewAbortController,
       FetchCall ''https://api.example.com/users/1''
         (get_config\<lparr>signal := Some RequestSignal\<rparr>),
       ResponseJson, SchemaParse (JStr ''oops''),
       ConsoleError ''An unexpected error occurred:'' ''Invalid input'' None, AbortCall])
   \<and> status_check (stub_response 200 ''OK'' (JStr ''oops'')) = None"
  using request_validation_failure
    [of "stub_platform (Fulfilled (stub_response 200 ''OK'' (JStr ''oops'')))"
      "''https://api.example.com/users/1''" get_config
      "stub_response 200 ''OK'' (JStr ''oops'')" "JStr ''oops''" UserSchema
      "ZodError ''Invalid input''"]
  by (simp add: stub_platform_def stub_response_def UserSchema_def ZodError_def)

section \<open>Error propagation\<close>

text \<open>
  Claim C5, as the code has it. Take any value the \<^verbatim>\<open>try\<close> block throws, whether it
  comes from the network call, the classification, the decoding or the validation. If it is
  an \<^verbatim>\<open>Error\<close> whose name is not a property of \<^verbatim>\<open>Object.prototype\<close>, then
  \<open>handleErrors\<close> runs on it once, between the events of the \<^verbatim>\<open>try\<close> block and the
  abort, throws nothing and logs one line; for a name outside the four keys of
  \<open>errorHandlers\<close> that line is the one of \<open>handleUnexpectedError\<close>; and \<open>request\<close>
  rejects with the same error. If the thrown value is not an \<^verbatim>\<open>Error\<close>, it is thrown on
  unchanged and \<open>handleErrors\<close> does not run.
\<close>

theorem request_dispatches_errors:
  assumes "request_try p url config responseSchema = (Rejected t, evs)"
  shows "case t of
      ErrorObj e \<Rightarrow>
        name e \<notin> set (map fst Object_prototype) \<longrightarrow>
          request p url config responseSchema =
            (Rejected t, NewAbortController # evs @ snd (handleErrors e) @ [AbortCall])
          \<and> fst (handleErrors e) = None
          \<and> length (snd (handleErrors e)) = 1
          \<and> (name e \<notin> set (map fst errorHandlers) \<longrightarrow>
               snd (handleErrors e) = handleUnexpectedError e)
    | NonError v \<Rightarrow>
        request p url config responseSchema =
          (Rejected t, NewAbortController # evs @ [AbortCall])"
proof (cases t)
  case (ErrorObj e)
  show ?thesis
  proof (cases "name e \<in> set (map fst Object_prototype)")
    case True
    with ErrorObj show ?thesis by simp
  next
    case False
    have nt: "fst (handleErrors e) = None" and len: "length (snd (handleErrors e)) = 1"
      using handleErrors_no_throw [OF False] by simp_all
    have req: "request p url config responseSchema =
        (Rejected t, NewAbortController # evs @ snd (handleErrors e) @ [AbortCall])"
    proof -
      obtain logged where "handleErrors e = (None, logged)"
        using nt by (cases "handleErrors e") simp
      with assms ErrorObj show ?thesis
        by (simp add: request_def request_catch_def)
    qed
    have dflt: "name e \<notin> set (map fst errorHandlers) \<longrightarrow>
        snd (handleErrors e) = handleUnexpectedError e"
      using handleErrors_unmapped [OF _ False] by simp
    from ErrorObj False nt len req dflt show ?thesis by simp
  qed
next
  case (NonError v)
  with assms show ?thesis by (simp add: request_def request_catch_def)
qed

theorem request_dispatches_errors_witness:
  "request (stub_platform (Fulfilled (stub_response 200 ''OK'' JNull)))
      ''https://api.example.com/users/1'' get_config UserSchema =
     (Rejected (ErrorObj (ZodError ''Invalid input'')),
      NewAbortController #
      [FetchCall ''https://api.example.com/users/1''
         (get_config\<lparr>signal := Some RequestSignal\<rparr>),
       ResponseJson, SchemaParse JNull]
      @ snd (handleErrors (ZodError ''Invalid input'')) @ [AbortCall])
   \<and> handleErrors (ZodError ''Invalid input'') =
       (None, [ConsoleError ''An unexpected error occurred:'' ''Invalid input'' None])
   \<and> request (stub_platform (Fulfilled (stub_response 200 ''OK'' JNull)))
      ''https://api.example.com/users/1'' get_config ThrowingSchema =
     (Rejected (NonError (JStr ''boom'')),
      NewAbortController #
      [FetchCall ''https://api.example.com/users/1''
         (get_config\<lparr>signal := Some RequestSignal\<rparr>),
       ResponseJson, SchemaParse JNull]
      @ [AbortCall])"
  using request_dispatches_errors
    [of "stub_platform (Fulfilled (stub_response 200 ''OK'' JNull))"
      "''https://api.example.com/users/1''" get_config UserSchema
      "ErrorObj (ZodError ''Invalid input'')"
      "[FetchCall ''https://api.example.com/users/1''
          (get_config\<lparr>signal := Some RequestSignal\<rparr>),
        ResponseJson, SchemaParse JNull]"]
    request_dispatches_errors
    [of "stub_platform (Fulfilled (stub_response 200 ''OK'' JNull))"
      "''https://api.example.com/users/1''" get_config ThrowingSchema
      "NonError (JStr ''boom'')"
      "[FetchCall ''https://api.example.com/users/1''
          (get_config\<lparr>signal := Some RequestSignal\<rparr>),
        ResponseJson, SchemaParse JNull]"]
  by (simp add: request_try_def decode_and_parse_def status_check_def handler_defs
      stub_platform_def stub_response_def UserSchema_def ThrowingSchema_def ZodError_def)

text \<open>
  A thrown value that is no \<^verbatim>\<open>Error\<close> skips the dispatch: the schema's transform throws a
  string during validation, and the run shows no line on \<^verbatim>\<open>console.error\<close> between the
  validation and the abort.
\<close>

theorem request_non_error_not_dispatched:
  "request (stub_platform (Fulfilled (stub_response 200 ''OK'' JNull)))
      ''https://api.example.com/users/1'' get_config ThrowingSchema =
     (Rejected (NonError (JStr ''boom'')),
      [NewAbortController,
       FetchCall ''https://api.example.com/users/1''
         (get_config\<lparr>signal := Some RequestSignal\<rparr>),
       ResponseJson, SchemaParse JNull, AbortCall])"
  by (simp add: request_defs stub_platform_def stub_response_def ThrowingSchema_def)

text \<open>
  Claim C8. When the transport throws instead of answering, with the \<^verbatim>\<open>TypeError\<close> that
  \<^verbatim>\<open>fetch\<close> rejects with on a network failure, \<open>request\<close> rejects with that same error.
  Its name is none of the four keys of \<open>errorHandlers\<close>, so the dispatch logs it through
  \<open>handleUnexpectedError\<close>, once; nothing is decoded; and the error is not one that
  \<open>createNetworkError\<close> builds.
\<close>

theorem request_transport_failure:
  assumes "fetch p url (config\<lparr>signal := Some RequestSignal\<rparr>) = Rejected (ErrorObj e)"
    and "name e = ''TypeError''"
  shows "request p url config responseSchema =
     (Rejected (ErrorObj e),
      [NewAbortController, FetchCall url (config\<lparr>signal := Some RequestSignal\<rparr>)]
      @ handleUnexpectedError e @ [AbortCall])
   \<and> name e \<notin> set (map fst errorHandlers)
   \<and> handleErrors e = (None, handleUnexpectedError e)
   \<and> e \<noteq> createNetworkError msg"
  using assms
  by (auto simp add: request_defs handler_defs createNetworkError_def)

theorem request_transport_failure_witness:
  "request (stub_platform (Rejected (ErrorObj (TypeError ''fetch failed''))))
      ''https://api.example.com/users/1'' get_config UserSchema =
     (Rejected (ErrorObj (TypeError ''fetch failed'')),
      [NewAbortController,
       FetchCall ''https://api.example.com/users/1''
         (get_config\<lparr>signal := Some RequestSignal\<rparr>),
       ConsoleError ''An unexpected error occurred:'' ''fetch failed'' None,
       AbortCall])"
  using request_transport_failure
    [of "stub_platform (Rejected (ErrorObj (TypeError ''fetch failed'')))"
      "''https://api.example.com/users/1''" get_config "TypeError ''fetch failed''" UserSchema]
  by (simp add: stub_platform_def TypeError_def handleUnexpectedError_def)

section \<open>The cancellation token\<close>

text \<open>
  Claim C6. Every call of \<open>request\<close> creates one \<^verbatim>\<open>AbortController\<close>, as its first
  effect. Whenever the call settles, by resolving or by rejecting with whatever error, the
  controller has been aborted exactly once, and the abort is the last effect of the call.
\<close>

theorem request_controller_lifecycle:
  "count_list (snd (request p url config responseSchema)) NewAbortController = 1
   \<and> hd (snd (request p url config responseSchema)) = NewAbortController
   \<and> (fst (request p url config responseSchema) \<noteq> Pending \<longrightarrow>
        count_list (snd (request p url config responseSchema)) AbortCall = 1
        \<and> last (snd (request p url config responseSchema)) = AbortCall)"
proof -
  obtain out evs where tr: "request_try p url config responseSchema = (out, evs)"
    by (cases "request_try p url config responseSchema")
  have evs: "count_list evs NewAbortController = 0" "count_list evs AbortCall = 0"
    using request_try_events [of p url config responseSchema] tr by simp_all
  show ?thesis
  proof (cases out)
    case (Fulfilled v)
    with tr evs show ?thesis by (simp add: request_def)
  next
    case Pending
    with tr evs show ?thesis by (simp add: request_def)
  next
    case (Rejected t)
    obtain t' logged where c: "request_catch t = (t', logged)"
      by (cases "request_catch t")
    have lg: "count_list logged NewAbortController = 0" "count_list logged AbortCall = 0"
      using request_catch_events [of t] c by simp_all
    from tr Rejected c evs lg show ?thesis by (simp add: request_def)
  qed
qed

theorem request_controller_lifecycle_witness:
  "count_list (snd (request (stub_platform (Fulfilled (stub_response 404 ''Not Found'' JNull)))
      ''https://api.example.com/users/1'' get_config UserSchema)) NewAbortController = 1
   \<and> fst (request (stub_platform (Fulfilled (stub_response 404 ''Not Found'' JNull)))
      ''https://api.example.com/users/1'' get_config UserSchema) \<noteq> Pending
   \<and> count_list (snd (request (stub_platform (Fulfilled (stub_response 404 ''Not Found'' JNull)))
      ''https://api.example.com/users/1'' get_config UserSchema)) AbortCall = 1
   \<and> last (snd (request (stub_platform (Fulfilled (stub_response 404 ''Not Found'' JNull)))
      ''https://api.example.com/users/1'' get_config UserSchema)) = AbortCall"
  using request_controller_lifecycle
    [of "stub_platform (Fulfilled (stub_response 404 ''Not Found'' JNull))"
      "''https://api.example.com/users/1''" get_config UserSchema]
  by (simp add: request_defs handler_defs createClientError_def stub_platform_def
      stub_response_def)

section \<open>The configuration of the network call\<close>




section \<open>Query validation in the wrappers\<close>

text \<open>
  Claim C10. When the query schema rejects the query, each of \<open>u_post\<close>, \<open>u_put\<close>,
  \<open>u_patch\<close> and \<open>u_delete\<close> rejects with the value the schema threw, and the run of
  the query schema is its only effect: no controller is created, no network call is
  issued, and nothing is logged, since \<open>request\<close> and with it \<open>handleErrors\<close> never run.
\<close>

theorem wrappers_reject_invalid_query:
  assumes "querySchema query = Inl t"
  shows "u_post p url querySchema query responseSchema = (Rejected t, [SchemaParse query])
   \<and> u_put p url querySchema query responseSchema = (Rejected t, [SchemaParse query])
   \<and> u_patch p url querySchema query responseSchema = (Rejected t, [SchemaParse query])
   \<and> u_delete p url querySchema query responseSchema = (Rejected t, [SchemaParse query])"
  using assms by (simp add: u_post_def u_put_def u_patch_def u_delete_def)

theorem wrappers_reject_invalid_query_witness:
  "u_post (stub_platform (Fulfilled (stub_response 200 ''OK'' user_ana)))
      ''https://api.example.com/users'' UserSchema JNull UserSchema =
     (Rejected (ErrorObj (ZodError ''Invalid input'')), [SchemaParse JNull])
   \<and> u_put (stub_platform (Fulfilled (stub_response 200 ''OK'' user_ana)))
      ''https://api.example.com/users'' UserSchema JNull UserSchema =
     (Rejected (ErrorObj (ZodError ''Invalid input'')), [SchemaParse JNull])
   \<and> u_patch (stub_platform (Fulfilled (stub_response 200 ''OK'' user_ana)))
      ''https://api.example.com/users'' UserSchema JNull UserSchema =
     (Rejected (ErrorObj (ZodError ''Invalid input'')), [SchemaParse JNull])
   \<and> u_delete (stub_platform (Fulfilled (stub_response 200 ''OK'' user_ana)))
      ''https://api.example.com/users'' UserSchema JNull UserSchema =
     (Rejected (ErrorObj (ZodError ''Invalid input'')), [SchemaParse JNull])"
  using wrappers_reject_invalid_query
    [of UserSchema JNull "ErrorObj (ZodError ''Invalid input'')"
      "stub_platform (Fulfilled (stub_response 200 ''OK'' user_ana))"
      "''https://api.example.com/users''" UserSchema]
  by (simp add: UserSchema_def)

end
